theory Spec2Isabelle
  imports Main
begin

text \<open>
  The value-synthesis resolvers of the schema faker: the field resolver
  \<open>fakeFieldResolver\<close> with its local functions, the type resolver
  \<open>fakeTypeResolver\<close>, the leaf default \<open>fakeLeafValueCB\<close>, the annotation
  extractor \<open>getDirectiveArgs\<close>, and the substitution of the root type placeholder made
  by \<open>runServer\<close>. A resolver is a function from its inputs and the state of the random
  generator to an error or a value with the next state; the GraphQL library's schema
  objects are records of what the resolvers read from them, and the generators the
  resolvers import are parameters.
\<close>

section \<open>Runtime values\<close>

text \<open>
  The values a resolver receives and returns. An object is the list of its own enumerable
  properties in insertion order (keys are distinct); \<open>JError\<close> is an instance of
  \<open>Error\<close>, what a failed upstream field carries. Numbers are carried through
  the resolver untouched, so only integers are represented.
\<close>

datatype jsval =
    JUndefined
  | JNull
  | JBool bool
  | JNum int
  | JStr string
  | JArr "jsval list"
  | JObj "(string \<times> jsval) list"
  | JError string

text \<open>What the resolver can throw.\<close>

datatype error = AssertionError | RangeError | TypeError | GraphQLError

text \<open>\<open>object[key]\<close> on an object literal: a missing key reads as \<open>undefined\<close>.\<close>

fun getProp :: "(string \<times> jsval) list \<Rightarrow> string \<Rightarrow> jsval" where
  "getProp [] k = JUndefined"
| "getProp ((k', v) # ps) k = (if k' = k then v else getProp ps k)"

text \<open>Assignment to a property: an existing key keeps its place, a new key goes last.\<close>

fun setProp :: "string \<Rightarrow> jsval \<Rightarrow> (string \<times> jsval) list \<Rightarrow> (string \<times> jsval) list" where
  "setProp k v [] = [(k, v)]"
| "setProp k v ((k', v') # ps) = (if k' = k then (k, v) # ps else (k', v') # setProp k v ps)"

text \<open>Decimal numerals, the keys under which a spread copies array items and characters.\<close>

fun decimal :: "nat \<Rightarrow> string" where
  "decimal n = (if 10 \<le> n then decimal (n div 10) else []) @ [''0123456789'' ! (n mod 10)]"

fun indexed :: "nat \<Rightarrow> jsval list \<Rightarrow> (string \<times> jsval) list" where
  "indexed i [] = []"
| "indexed i (v # vs) = (decimal i, v) # indexed (Suc i) vs"

text \<open>
  The own enumerable properties an object spread \<open>{...v}\<close> copies: those of an
  object, the items of an array and the characters of a string under their indices, and
  nothing for the other values.
\<close>

fun ownProps :: "jsval \<Rightarrow> (string \<times> jsval) list" where
  "ownProps (JObj ps) = ps"
| "ownProps (JArr vs) = indexed 0 vs"
| "ownProps (JStr s) = indexed 0 (map (\<lambda>c. JStr [c]) s)"
| "ownProps v = []"

text \<open>\<open>{...target, ...v}\<close>: the properties of \<open>v\<close> are assigned in order over the target.\<close>

fun assignProps :: "(string \<times> jsval) list \<Rightarrow> (string \<times> jsval) list \<Rightarrow> (string \<times> jsval) list" where
  "assignProps target [] = target"
| "assignProps target ((k, v) # ps) = assignProps (setProp k v target) ps"

definition spread :: "(string \<times> jsval) list \<Rightarrow> jsval \<Rightarrow> (string \<times> jsval) list" where
  "spread target v = assignProps target (ownProps v)"

text \<open>\<open>value instanceof Error\<close>.\<close>

fun instanceofError :: "jsval \<Rightarrow> bool" where
  "instanceofError (JError m) = True"
| "instanceofError v = False"

text \<open>
  \<open>isPlainObject\<close>: \<open>typeof\<close> is \<open>'object'\<close> (objects, arrays,
  \<open>null\<close> and error instances), and the value is neither \<open>null\<close> nor
  an array.
\<close>

fun typeofObject :: "jsval \<Rightarrow> bool" where
  "typeofObject JNull = True"
| "typeofObject (JArr vs) = True"
| "typeofObject (JObj ps) = True"
| "typeofObject (JError m) = True"
| "typeofObject v = False"

fun isArray :: "jsval \<Rightarrow> bool" where
  "isArray (JArr vs) = True"
| "isArray v = False"

definition isPlainObject :: "jsval \<Rightarrow> bool" where
  "isPlainObject maybeObject =
     (typeofObject maybeObject \<and> maybeObject \<noteq> JNull \<and> \<not> isArray maybeObject)"

section \<open>Schema\<close>

text \<open>The argument values of the three annotations, as the resolver's types declare them.\<close>

datatype FakeArgs = FakeArgs (type_arg: string) (options_arg: jsval) (locale_arg: jsval)

datatype ExamplesArgs = ExamplesArgs (values_arg: "jsval list")

datatype ListLengthArgs = ListLengthArgs (min_arg: int) (max_arg: int)

text \<open>
  A declaration site (the base declaration of an element, or one extension fragment):
  for each annotation, its coerced argument values when the site carries it; and the names
  of the directives the site carries with arguments that do not coerce to the types their
  definition declares (building a schema from text does not check the values).
\<close>

record astNode =
  fake :: "FakeArgs option"
  examples :: "ExamplesArgs option"
  listLength :: "ListLengthArgs option"
  invalid :: "string list"

text \<open>
  A directive definition of the schema: its name and the reader of its argument values at
  a declaration site. \<open>getDirectiveValues\<close> (of the GraphQL library) returns
  \<open>undefined\<close>, here \<open>None\<close>, when the site does not carry the directive, and
  throws a GraphQLError when the site carries it with arguments that do not coerce.
\<close>

datatype 'a directive = Directive (directive_name: string) (directive_reader: "astNode \<Rightarrow> 'a option")

definition getDirectiveValues :: "'a directive \<Rightarrow> astNode \<Rightarrow> error + 'a option" where
  "getDirectiveValues directive node =
     (if directive_name directive \<in> set (invalid node) then Inl GraphQLError
      else Inr (directive_reader directive node))"

text \<open>
  What the annotation extractor is given: an element with its base declaration under
  \<open>astNode\<close>, and the two properties extension fragments can be looked for under:
  \<open>extensionNodes\<close>, which the extractor reads, and \<open>extensionASTNodes\<close>, where the
  GraphQL library keeps them. Each may be absent (\<open>null\<close> or \<open>undefined\<close>).
\<close>

record element =
  astNode :: "astNode option"
  extensionNodes :: "astNode list option"
  extensionASTNodes :: "astNode list option"

text \<open>
  An element as the GraphQL library builds it: it has no property \<open>extensionNodes\<close>.
\<close>

definition schemaObject :: "astNode option \<Rightarrow> astNode list option \<Rightarrow> element" where
  "schemaObject base fragments =
     \<lparr> astNode = base, extensionNodes = None, extensionASTNodes = fragments \<rparr>"

datatype typeKind = ScalarKind | EnumKind "jsval list" | ObjectKind | InterfaceKind | UnionKind

text \<open>A named type; an enum carries the values \<open>getValues()\<close> lists.\<close>

record namedType = element +
  name :: string
  kind :: typeKind

datatype gqlType = NonNull gqlType | ListOf gqlType | Named namedType

text \<open>A field definition, which the extractor reads like any other element.\<close>

record fieldDef = element +
  fieldType :: gqlType

text \<open>
  What the resolvers read from the schema: the names of the directives it defines, the
  name of its mutation root when it has one, and the possible types of each abstract type
  by its name.
\<close>

record schema =
  directives :: "string list"
  mutationType :: "string option"
  possibleTypes :: "string \<Rightarrow> namedType list"

text \<open>\<open>schema.getDirective(name)\<close>: the definition, when the schema declares one.\<close>

definition getDirective :: "schema \<Rightarrow> string \<Rightarrow> (astNode \<Rightarrow> 'a option) \<Rightarrow> 'a directive option" where
  "getDirective s n reader = (if n \<in> set (directives s) then Some (Directive n reader) else None)"

definition getPossibleTypes :: "schema \<Rightarrow> ('a namedType_scheme) \<Rightarrow> namedType list" where
  "getPossibleTypes s t = possibleTypes s (name t)"

fun getNullableType :: "gqlType \<Rightarrow> gqlType" where
  "getNullableType (NonNull t) = t"
| "getNullableType t = t"

fun isEnumType :: "namedType \<Rightarrow> bool" where
  "isEnumType t = (case kind t of EnumKind vs \<Rightarrow> True | _ \<Rightarrow> False)"

fun isLeafType :: "namedType \<Rightarrow> bool" where
  "isLeafType t = (case kind t of ScalarKind \<Rightarrow> True | EnumKind vs \<Rightarrow> True | _ \<Rightarrow> False)"

fun isAbstractType :: "namedType \<Rightarrow> bool" where
  "isAbstractType t = (case kind t of InterfaceKind \<Rightarrow> True | UnionKind \<Rightarrow> True | _ \<Rightarrow> False)"

fun isCompositeType :: "gqlType \<Rightarrow> bool" where
  "isCompositeType (Named t) =
     (case kind t of ObjectKind \<Rightarrow> True | InterfaceKind \<Rightarrow> True | UnionKind \<Rightarrow> True | _ \<Rightarrow> False)"
| "isCompositeType t = False"

fun getValues :: "namedType \<Rightarrow> jsval list" where
  "getValues t = (case kind t of EnumKind vs \<Rightarrow> vs | _ \<Rightarrow> [])"

section \<open>Random source and generators\<close>

text \<open>
  The generators the resolver imports, over a generator state \<open>'g\<close> that every call
  advances: \<open>random_number\<close> is the random library's \<open>random.number({min, max})\<close>,
  \<open>fakeValue\<close> the generator behind a \<open>fake\<close> annotation, and
  \<open>stdScalarFakers\<close> the table of the built-in scalars' generators.
\<close>

record 'g faker =
  random_number :: "int \<Rightarrow> int \<Rightarrow> 'g \<Rightarrow> int \<times> 'g"
  fakeValue :: "string \<Rightarrow> jsval \<Rightarrow> jsval \<Rightarrow> 'g \<Rightarrow> jsval \<times> 'g"
  stdScalarFakers :: "string \<Rightarrow> ('g \<Rightarrow> jsval \<times> 'g) option"

text \<open>
  The random library's contract: an integer of the inclusive range, when the range is not
  empty. Nothing is assumed of a draw from an empty range.
\<close>

definition inclusive :: "'g faker \<Rightarrow> bool" where
  "inclusive fk = (\<forall>lo hi g. lo \<le> hi \<longrightarrow> lo \<le> fst (random_number fk lo hi g) \<and> fst (random_number fk lo hi g) \<le> hi)"

text \<open>\<open>getRandomInt\<close> and \<open>getRandomItem\<close>, as the repository defines them.\<close>

definition getRandomInt :: "'g faker \<Rightarrow> int \<Rightarrow> int \<Rightarrow> 'g \<Rightarrow> int \<times> 'g" where
  "getRandomInt fk lo hi g = random_number fk lo hi g"

text \<open>\<open>array[getRandomInt(0, array.length - 1)]\<close>: an index outside the array reads \<open>undefined\<close>.\<close>

definition getRandomItem :: "'g faker \<Rightarrow> 'a list \<Rightarrow> 'g \<Rightarrow> 'a option \<times> 'g" where
  "getRandomItem fk array g =
     (case getRandomInt fk 0 (int (length array) - 1) g of
        (i, g') \<Rightarrow> (if 0 \<le> i \<and> i < int (length array) then Some (array ! nat i) else None, g'))"

fun orUndefined :: "jsval option \<Rightarrow> jsval" where
  "orUndefined None = JUndefined"
| "orUndefined (Some v) = v"

section \<open>Annotation extractor\<close>

text \<open>The loop over the extension fragments: each fragment's reading replaces the last.\<close>

fun getDirectiveArgs_loop :: "'a directive \<Rightarrow> 'a option \<Rightarrow> astNode list \<Rightarrow> error + 'a option" where
  "getDirectiveArgs_loop directive args [] = Inr args"
| "getDirectiveArgs_loop directive args (node # nodes) =
     (case getDirectiveValues directive node of
        Inl e \<Rightarrow> Inl e
      | Inr args' \<Rightarrow> getDirectiveArgs_loop directive args' nodes)"

text \<open>
  \<open>getDirectiveArgs\<close>: the assertion on the directive definition, then the base
  declaration, then the extension fragments.
\<close>

definition getDirectiveArgs :: "'a directive option \<Rightarrow> 'b element_scheme \<Rightarrow> error + 'a option" where
  "getDirectiveArgs directive object =
     (case directive of
        None \<Rightarrow> Inl AssertionError
      | Some d \<Rightarrow>
          (case (case astNode object of None \<Rightarrow> Inr None | Some node \<Rightarrow> getDirectiveValues d node) of
             Inl e \<Rightarrow> Inl e
           | Inr args \<Rightarrow>
               (case extensionNodes object of
                  None \<Rightarrow> Inr args
                | Some nodes \<Rightarrow> getDirectiveArgs_loop d args nodes)))"

section \<open>Field resolver\<close>

text \<open>The callback \<open>() => fakeValue(args.type, args.options, args.locale)\<close>.\<close>

definition fakeValueCB :: "'g faker \<Rightarrow> FakeArgs \<Rightarrow> 'g \<Rightarrow> jsval \<times> 'g" where
  "fakeValueCB fk args g = fakeValue fk (type_arg args) (options_arg args) (locale_arg args) g"

text \<open>The callback \<open>() => getRandomItem(args.values)\<close>.\<close>

definition exampleValueCB :: "'g faker \<Rightarrow> ExamplesArgs \<Rightarrow> 'g \<Rightarrow> jsval \<times> 'g" where
  "exampleValueCB fk args g =
     (case getRandomItem fk (values_arg args) g of (r, g') \<Rightarrow> (orUndefined r, g'))"

text \<open>\<open>args && callback\<close>: no callback when the extractor found no arguments.\<close>

definition getFakeValueCB :: "'g faker \<Rightarrow> schema \<Rightarrow> 'b element_scheme \<Rightarrow> error + ('g \<Rightarrow> jsval \<times> 'g) option" where
  "getFakeValueCB fk s object =
     (case getDirectiveArgs (getDirective s ''fake'' fake) object of
        Inl e \<Rightarrow> Inl e
      | Inr None \<Rightarrow> Inr None
      | Inr (Some args) \<Rightarrow> Inr (Some (fakeValueCB fk args)))"

definition getExampleValueCB :: "'g faker \<Rightarrow> schema \<Rightarrow> 'b element_scheme \<Rightarrow> error + ('g \<Rightarrow> jsval \<times> 'g) option" where
  "getExampleValueCB fk s object =
     (case getDirectiveArgs (getDirective s ''examples'' examples) object of
        Inl e \<Rightarrow> Inl e
      | Inr None \<Rightarrow> Inr None
      | Inr (Some args) \<Rightarrow> Inr (Some (exampleValueCB fk args)))"

definition getListLength :: "'g faker \<Rightarrow> schema \<Rightarrow> 'b element_scheme \<Rightarrow> 'g \<Rightarrow> error + int \<times> 'g" where
  "getListLength fk s object g =
     (case getDirectiveArgs (getDirective s ''listLength'' listLength) object of
        Inl e \<Rightarrow> Inl e
      | Inr (Some args) \<Rightarrow> Inr (getRandomInt fk (min_arg args) (max_arg args) g)
      | Inr None \<Rightarrow> Inr (getRandomInt fk 2 4 g))"

text \<open>\<open>a || b\<close> over lookups that may throw: \<open>b\<close> is evaluated only when \<open>a\<close> found nothing.\<close>

definition orElse :: "error + 'a option \<Rightarrow> error + 'a option \<Rightarrow> error + 'a option" where
  "orElse a b = (case a of Inl e \<Rightarrow> Inl e | Inr (Some x) \<Rightarrow> Inr (Some x) | Inr None \<Rightarrow> b)"

text \<open>\<open>Array(n)\<close>: a length outside \<open>0 .. 2^32 - 1\<close> is a RangeError.\<close>

definition newArray :: "int \<Rightarrow> error + nat" where
  "newArray n = (if 0 \<le> n \<and> n \<le> 4294967295 then Inr (nat n) else Inl RangeError)"

text \<open>\<open>.fill(null).map(() => f())\<close>: the items are produced one after the other.\<close>

fun fakeItems :: "('g \<Rightarrow> error + jsval \<times> 'g) \<Rightarrow> nat \<Rightarrow> 'g \<Rightarrow> error + jsval list \<times> 'g" where
  "fakeItems f 0 g = Inr ([], g)"
| "fakeItems f (Suc n) g =
     (case f g of
        Inl e \<Rightarrow> Inl e
      | Inr (v, g') \<Rightarrow>
          (case fakeItems f n g' of
             Inl e \<Rightarrow> Inl e
           | Inr (vs, g'') \<Rightarrow> Inr (v # vs, g'')))"

text \<open>
  \<open>stdScalarFakers[type.name]\<close> is a property lookup in an object: a name the table
  does not register still finds what every object inherits from \<open>Object.prototype\<close>.
  \<open>objectPrototype\<close> gives, for each inherited member, what \<open>faker()\<close> then does,
  the member being called with no receiver and no argument.
\<close>

datatype called = Returns jsval | Throws error

definition objectPrototype :: "string \<Rightarrow> called option" where
  "objectPrototype n =
     (if n = ''constructor'' then Some (Returns (JObj []))
      else if n = ''toString'' then Some (Returns (JStr ''[object Undefined]''))
      else if n = ''isPrototypeOf'' then Some (Returns (JBool False))
      else if n \<in> set [''valueOf'', ''toLocaleString'', ''hasOwnProperty'', ''propertyIsEnumerable'',
                         ''__proto__'', ''__defineGetter__'', ''__defineSetter__'',
                         ''__lookupGetter__'', ''__lookupSetter__'']
      then Some (Throws TypeError)
      else None)"

definition fakeLeafValueCB :: "'g faker \<Rightarrow> namedType \<Rightarrow> 'g \<Rightarrow> error + jsval \<times> 'g" where
  "fakeLeafValueCB fk t g =
     (if isEnumType t then
        (case getRandomItem fk (getValues t) g of (r, g') \<Rightarrow> Inr (orUndefined r, g'))
      else
        (case stdScalarFakers fk (name t) of
           Some faker \<Rightarrow> Inr (faker g)
         | None \<Rightarrow>
             (case objectPrototype (name t) of
                Some (Returns v) \<Rightarrow> Inr (v, g)
              | Some (Throws e) \<Rightarrow> Inl e
              | None \<Rightarrow> Inr (JStr (''<'' @ name t @ ''>''), g))))"

text \<open>
  The type-name tag of a composite value; \<open>.name\<close> of \<open>undefined\<close> is a
  TypeError.
\<close>

definition typename :: "'g faker \<Rightarrow> schema \<Rightarrow> namedType \<Rightarrow> 'g \<Rightarrow> error + string \<times> 'g" where
  "typename fk s t g =
     (if isAbstractType t then
        (case getRandomItem fk (getPossibleTypes s t) g of
           (None, g') \<Rightarrow> Inl TypeError
         | (Some p, g') \<Rightarrow> Inr (name p, g'))
      else Inr (name t, g))"

text \<open>The callback \<open>fakeValueOfType\<close> selects for a field and its named type.\<close>

definition valueCB :: "'g faker \<Rightarrow> schema \<Rightarrow> fieldDef \<Rightarrow> namedType \<Rightarrow> error + ('g \<Rightarrow> jsval \<times> 'g) option" where
  "valueCB fk s fieldDef t =
     orElse (getExampleValueCB fk s fieldDef)
       (orElse (getFakeValueCB fk s fieldDef)
          (orElse (getExampleValueCB fk s t) (getFakeValueCB fk s t)))"

primrec fakeValueOfType :: "'g faker \<Rightarrow> schema \<Rightarrow> fieldDef \<Rightarrow> gqlType \<Rightarrow> 'g \<Rightarrow> error + jsval \<times> 'g" where
  "fakeValueOfType fk s fieldDef (NonNull t) = fakeValueOfType fk s fieldDef t"
| "fakeValueOfType fk s fieldDef (ListOf t) = (\<lambda>g.
     case getListLength fk s fieldDef g of
       Inl e \<Rightarrow> Inl e
     | Inr (n, g') \<Rightarrow>
         (case newArray n of
            Inl e \<Rightarrow> Inl e
          | Inr len \<Rightarrow>
              (case fakeItems (fakeValueOfType fk s fieldDef t) len g' of
                 Inl e \<Rightarrow> Inl e
               | Inr (vs, g'') \<Rightarrow> Inr (JArr vs, g''))))"
| "fakeValueOfType fk s fieldDef (Named t) = (\<lambda>g.
     case valueCB fk s fieldDef t of
       Inl e \<Rightarrow> Inl e
     | Inr cbo \<Rightarrow>
         if isLeafType t then
           (case cbo of
              Some cb \<Rightarrow> Inr (cb g)
            | None \<Rightarrow> fakeLeafValueCB fk t g)
         else
           (case typename fk s t g of
              Inl e \<Rightarrow> Inl e
            | Inr (tn, g') \<Rightarrow>
                (case cbo of
                   Some cb \<Rightarrow>
                     (case cb g' of (v, g'') \<Rightarrow> Inr (JObj (spread [(''__typename'', JStr tn)] v), g''))
                 | None \<Rightarrow> Inr (JObj (spread [(''__typename'', JStr tn)] (JObj [])), g'))))"

text \<open>
  What the execution engine hands to a resolver: the schema, the parent type with its
  fields, and the name of the field being resolved.
\<close>

record objectType = namedType +
  getFields :: "(string \<times> fieldDef) list"

record resolveInfo =
  schema :: schema
  parentType :: objectType
  fieldName :: string

text \<open>
  \<open>fakeFieldResolver\<close>. \<open>defaultResolved\<close> is what the engine's default
  resolver returned for the field: the real value, \<open>JUndefined\<close> when there is none.
  A field the parent type does not declare makes \<open>fieldDef.type\<close> a TypeError.
\<close>

definition fakeFieldResolver ::
    "'g faker \<Rightarrow> (string \<times> jsval) list \<Rightarrow> resolveInfo \<Rightarrow> jsval \<Rightarrow> 'g \<Rightarrow> error + jsval \<times> 'g" where
  "fakeFieldResolver fk args info defaultResolved g =
     (if instanceofError defaultResolved then Inr (defaultResolved, g)
      else
        (case map_of (getFields (parentType info)) (fieldName info) of
           None \<Rightarrow> Inl TypeError
         | Some fieldDef \<Rightarrow>
             (case (if defaultResolved = JUndefined
                    then fakeValueOfType fk (schema info) fieldDef (fieldType fieldDef) g
                    else Inr (defaultResolved, g)) of
                Inl e \<Rightarrow> Inl e
              | Inr (resolved, g') \<Rightarrow>
                  (let isMutation = (mutationType (schema info) = Some (name (parentType info)));
                       isCompositeReturn = isCompositeType (getNullableType (fieldType fieldDef))
                   in if isMutation \<and> isCompositeReturn \<and> isPlainObject resolved then
                        (let inputArg = getProp args ''input''
                         in Inr (JObj (spread (spread [] resolved)
                                         (if length args = 1 \<and> isPlainObject inputArg
                                          then inputArg else JObj args)), g'))
                      else Inr (resolved, g')))))"

section \<open>Type resolver\<close>

text \<open>
  \<open>fakeTypeResolver\<close>. \<open>defaultResolved\<close> is what the engine's default type
  resolver returned, \<open>None\<close> for \<open>null\<close> and \<open>undefined\<close>; a type is
  identified by its name.
\<close>

definition fakeTypeResolver ::
    "'g faker \<Rightarrow> schema \<Rightarrow> string option \<Rightarrow> namedType \<Rightarrow> 'g \<Rightarrow> string option \<times> 'g" where
  "fakeTypeResolver fk s defaultResolved abstractType g =
     (case defaultResolved of
        Some t \<Rightarrow> (Some t, g)
      | None \<Rightarrow>
          (case getRandomItem fk (getPossibleTypes s abstractType) g of
             (r, g') \<Rightarrow> (map_option name r, g')))"

section \<open>Root type placeholder\<close>

text \<open>
  \<open>String.prototype.replace\<close> with a string pattern. The replacement is copied as it
  is: a type name has no \<open>$\<close> in it.
\<close>

fun replace :: "string \<Rightarrow> string \<Rightarrow> string \<Rightarrow> string" where
  "replace pat rep [] = (if pat = [] then rep else [])"
| "replace pat rep (c # cs) =
     (if take (length pat) (c # cs) = pat then rep @ drop (length pat) (c # cs)
      else c # replace pat rep cs)"

text \<open>The extension text \<open>runServer\<close> keeps, given the name of the base schema's query type.\<close>

definition runServer_extensionBody :: "string \<Rightarrow> string \<Rightarrow> string" where
  "runServer_extensionBody queryTypeName body = replace ''<RootTypeName>'' queryTypeName body"

text \<open>Whether a text contains a token.\<close>

fun occurs :: "string \<Rightarrow> string \<Rightarrow> bool" where
  "occurs pat [] = (pat = [])"
| "occurs pat (c # cs) = (take (length pat) (c # cs) = pat \<or> occurs pat cs)"

section \<open>Vocabulary of the properties\<close>

text \<open>An array whose length lies in the inclusive range.\<close>

definition arrayOfLength :: "int \<Rightarrow> int \<Rightarrow> jsval \<Rightarrow> bool" where
  "arrayOfLength lo hi v =
     (case v of JArr vs \<Rightarrow> lo \<le> int (length vs) \<and> int (length vs) \<le> hi | _ \<Rightarrow> False)"

section \<open>A sample schema\<close>

text \<open>
  A random source over a counter: the draw of a non-empty range walks through the range,
  the draw of an empty range is its lower end (the start of the generator's interval).
  The built-in \<open>Int\<close> is the only scalar with a generator.
\<close>

definition sampleFaker :: "nat faker" where
  "sampleFaker =
     \<lparr> random_number = (\<lambda>lo hi g. (if lo \<le> hi then lo + int g mod (hi - lo + 1) else lo, Suc g)),
       fakeValue = (\<lambda>t opts loc g. (JStr t, Suc g)),
       stdScalarFakers = (\<lambda>n. if n = ''Int'' then Some (\<lambda>g. (JNum (int g), Suc g)) else None) \<rparr>"

definition noDirectives :: astNode where
  "noDirectives = \<lparr> fake = None, examples = None, listLength = None, invalid = [] \<rparr>"

definition scalarType :: "string \<Rightarrow> namedType" where
  "scalarType n = \<lparr> astNode = Some noDirectives, extensionNodes = None, extensionASTNodes = None, name = n, kind = ScalarKind \<rparr>"

definition objectType :: "string \<Rightarrow> namedType" where
  "objectType n = \<lparr> astNode = Some noDirectives, extensionNodes = None, extensionASTNodes = None, name = n, kind = ObjectKind \<rparr>"

definition interfaceType :: "string \<Rightarrow> namedType" where
  "interfaceType n = \<lparr> astNode = Some noDirectives, extensionNodes = None, extensionASTNodes = None, name = n, kind = InterfaceKind \<rparr>"

definition field :: "astNode \<Rightarrow> gqlType \<Rightarrow> fieldDef" where
  "field node t = \<lparr> astNode = Some node, extensionNodes = None, extensionASTNodes = None, fieldType = t \<rparr>"

text \<open>
  The schema declares the three annotations, has \<open>Mutation\<close> as its mutation root and
  two implementations of the interface \<open>Node\<close>; the interface \<open>Orphan\<close> has none.
\<close>

definition sampleSchema :: schema where
  "sampleSchema =
     \<lparr> directives = [''fake'', ''examples'', ''listLength''],
       mutationType = Some ''Mutation'',
       possibleTypes = (\<lambda>n. if n = ''Node'' then [objectType ''User'', objectType ''Post''] else []) \<rparr>"

text \<open>The resolve info of a field \<open>f\<close> declared by the object type \<open>parent\<close>.\<close>

definition sampleInfo :: "string \<Rightarrow> string \<Rightarrow> fieldDef \<Rightarrow> resolveInfo" where
  "sampleInfo parent f fd =
     \<lparr> schema = sampleSchema,
       parentType = \<lparr> astNode = Some noDirectives, extensionNodes = None,
                      extensionASTNodes = None, name = parent,
                      kind = ObjectKind, getFields = [(f, fd)] \<rparr>,
       fieldName = f \<rparr>"

section \<open>Facts about the building blocks\<close>

lemmas sample_defs = sampleFaker_def sampleSchema_def sampleInfo_def field_def noDirectives_def
  scalarType_def objectType_def

lemmas resolver_defs = fakeFieldResolver_def valueCB_def orElse_def getExampleValueCB_def
  getFakeValueCB_def getListLength_def getDirectiveArgs_def getDirective_def getDirectiveValues_def
  getRandomItem_def getRandomInt_def fakeLeafValueCB_def typename_def newArray_def
  getPossibleTypes_def exampleValueCB_def fakeValueCB_def isPlainObject_def spread_def
  objectPrototype_def

subsection \<open>The sample random source honours the contract\<close>

lemma inclusive_sampleFaker: "inclusive sampleFaker"
proof -
  have "lo + int g mod (hi - lo + 1) \<le> hi \<and> lo \<le> lo + int g mod (hi - lo + 1)"
    if "lo \<le> hi" for lo hi :: int and g :: nat
  proof -
    have "0 < hi - lo + 1" using that by simp
    then have "0 \<le> int g mod (hi - lo + 1)" "int g mod (hi - lo + 1) < hi - lo + 1"
      by (rule pos_mod_sign, rule pos_mod_bound)
    then show ?thesis by simp
  qed
  then show ?thesis by (simp add: inclusive_def sampleFaker_def)
qed

subsection \<open>Random draws\<close>

lemma getRandomInt_inclusive:
  "inclusive fk \<Longrightarrow> lo \<le> hi \<Longrightarrow> getRandomInt fk lo hi g = (n, g') \<Longrightarrow> lo \<le> n \<and> n \<le> hi"
  unfolding inclusive_def getRandomInt_def
  by (metis fst_conv)

lemma getRandomItem_member:
  assumes "inclusive fk" "xs \<noteq> []"
  shows "\<exists>i < length xs.
           getRandomItem fk xs g = (Some (xs ! i), snd (getRandomInt fk 0 (int (length xs) - 1) g))"
proof -
  obtain n g' where r: "getRandomInt fk 0 (int (length xs) - 1) g = (n, g')"
    by (cases "getRandomInt fk 0 (int (length xs) - 1) g")
  have "0 \<le> int (length xs) - 1" using assms(2) by (cases xs) auto
  then have "0 \<le> n \<and> n \<le> int (length xs) - 1"
    using getRandomInt_inclusive[OF assms(1) _ r] by simp
  then have "nat n < length xs" "0 \<le> n" "n < int (length xs)" by auto
  then show ?thesis using r by (auto simp: getRandomItem_def intro!: exI[of _ "nat n"])
qed

subsection \<open>Properties of objects\<close>

lemma key_in_keys: "(k, v) \<in> set ps \<Longrightarrow> k \<in> fst ` set ps"
  by force

lemma getProp_setProp: "getProp (setProp k v ps) k' = (if k' = k then v else getProp ps k')"
  by (induction ps) auto

lemma getProp_append:
  "getProp (ps @ qs) k = (if k \<in> set (map fst ps) then getProp ps k else getProp qs k)"
  by (induction ps) (auto dest: key_in_keys)

lemma getProp_missing: "k \<notin> set (map fst ps) \<Longrightarrow> getProp ps k = JUndefined"
  by (induction ps) auto

lemma getProp_rev: "distinct (map fst ps) \<Longrightarrow> getProp (rev ps) k = getProp ps k"
  by (induction ps) (auto simp: getProp_append getProp_missing dest: key_in_keys)

text \<open>A spread overrides exactly the keys of its source.\<close>

lemma getProp_assignProps:
  "getProp (assignProps target src) k =
     (if k \<in> set (map fst src) then getProp (rev src) k else getProp target k)"
proof (induction src arbitrary: target)
  case Nil
  show ?case by simp
next
  case (Cons p src)
  obtain k0 v0 where p: "p = (k0, v0)" by (cases p)
  show ?case using Cons[of "setProp k0 v0 target"]
    by (auto simp: p getProp_setProp getProp_append)
qed

subsection \<open>The annotation extractor\<close>

lemma getDirective_None_iff: "(getDirective s n reader = None) = (n \<notin> set (directives s))"
  by (simp add: getDirective_def)

text \<open>Reading a declaration site fails only on arguments that do not coerce.\<close>

lemma getDirectiveValues_fails:
  "(getDirectiveValues d node = Inl e) = (directive_name d \<in> set (invalid node) \<and> e = GraphQLError)"
  by (auto simp: getDirectiveValues_def)

lemma getDirectiveArgs_loop_fails:
  "getDirectiveArgs_loop d a nodes = Inl e \<Longrightarrow>
   e = GraphQLError \<and> (\<exists>node \<in> set nodes. directive_name d \<in> set (invalid node))"
proof (induction nodes arbitrary: a)
  case Nil
  then show ?case by simp
next
  case (Cons node nodes)
  show ?case
  proof (cases "getDirectiveValues d node")
    case (Inl e')
    then have "e' = e" using Cons.prems by simp
    moreover have "directive_name d \<in> set (invalid node) \<and> e' = GraphQLError"
      using Inl by (simp add: getDirectiveValues_fails)
    ultimately show ?thesis by auto
  next
    case (Inr a')
    then show ?thesis using Cons.prems Cons.IH[of a'] by auto
  qed
qed

lemma getDirectiveArgs_loop_none:
  "(\<And>node. node \<in> set nodes \<Longrightarrow> getDirectiveValues d node = Inr None) \<Longrightarrow>
   getDirectiveArgs_loop d None nodes = Inr None"
  by (induction nodes) auto

text \<open>With the definition, the extractor fails only where a site it reads does.\<close>

lemma getDirectiveArgs_fails:
  assumes "getDirectiveArgs (Some d) obj = Inl e"
  shows "e = GraphQLError
       \<and> ((\<exists>node. astNode obj = Some node \<and> directive_name d \<in> set (invalid node))
          \<or> (\<exists>nodes. extensionNodes obj = Some nodes
                \<and> (\<exists>node \<in> set nodes. directive_name d \<in> set (invalid node))))"
proof (cases "case astNode obj of None \<Rightarrow> Inr None | Some node \<Rightarrow> getDirectiveValues d node")
  case (Inl e')
  then have "e' = e" using assms by (simp add: getDirectiveArgs_def)
  then show ?thesis using Inl by (auto simp: getDirectiveValues_fails split: option.splits)
next
  case (Inr a)
  then obtain nodes where n: "extensionNodes obj = Some nodes" "getDirectiveArgs_loop d a nodes = Inl e"
    using assms by (auto simp: getDirectiveArgs_def split: option.splits)
  then show ?thesis using getDirectiveArgs_loop_fails[OF n(2)] by auto
qed

lemma getDirectiveArgs_assertion_iff:
  "(getDirectiveArgs directive obj = Inl AssertionError) = (directive = None)"
proof (cases directive)
  case None
  then show ?thesis by (simp add: getDirectiveArgs_def)
next
  case (Some d)
  then show ?thesis using getDirectiveArgs_fails[of d obj AssertionError] by auto
qed

text \<open>
  On an element as the library builds it the loop has nothing to run over: the reading of
  the base declaration is the result, and no extension fragment is read.
\<close>

lemma getDirectiveArgs_schemaObject:
  "getDirectiveArgs (Some d) (schemaObject base fragments) =
     (case base of None \<Rightarrow> Inr None | Some node \<Rightarrow> getDirectiveValues d node)"
  by (auto simp: getDirectiveArgs_def schemaObject_def split: option.splits sum.splits)

subsection \<open>The leaf default\<close>

text \<open>A scalar name the table neither registers nor inherits gets the placeholder.\<close>

lemma fakeLeafValueCB_placeholder:
  assumes "kind t = ScalarKind" and "stdScalarFakers fk (name t) = None"
      and "objectPrototype (name t) = None"
  shows "fakeLeafValueCB fk t g = Inr (JStr (''<'' @ name t @ ''>''), g)"
  using assms by (simp add: fakeLeafValueCB_def)

subsection \<open>The selected callback\<close>


subsection \<open>Lists\<close>

lemma fakeItems_length:
  "fakeItems f n g = Inr (vs, g') \<Longrightarrow> length vs = n"
proof (induction n arbitrary: g vs g')
  case 0
  then show ?case by simp
next
  case (Suc n)
  then show ?case
    by (auto split: sum.splits prod.splits)
qed

lemma fakeItems_returns:
  assumes "\<And>g. \<exists>r. f g = Inr r"
  shows "\<exists>r. fakeItems f n g = Inr r"
proof (induction n arbitrary: g)
  case 0
  show ?case by simp
next
  case (Suc n)
  obtain v g1 where a: "f g = Inr (v, g1)" using assms[of g] by (cases "f g") auto
  obtain vs g2 where b: "fakeItems f n g1 = Inr (vs, g2)" using Suc[of g1] by auto
  show ?case using a b by simp
qed

text \<open>A list is never merged with the arguments: it is not a composite type.\<close>

lemma list_field:
  assumes "map_of (getFields (parentType info)) (fieldName info) = Some fd"
      and "fieldType fd = ListOf t \<or> fieldType fd = NonNull (ListOf t)"
  shows "fakeFieldResolver fk args info JUndefined g = fakeValueOfType fk (schema info) fd (ListOf t) g"
  using assms by (auto simp: fakeFieldResolver_def split: sum.splits)

lemma getListLength_range:
  assumes "inclusive fk"
      and "getDirectiveArgs (getDirective s ''listLength'' listLength) fd = Inr a"
      and "getListLength fk s fd g = Inr (n, g1)"
  shows "(a = Some (ListLengthArgs lo hi) \<and> lo \<le> hi \<longrightarrow> lo \<le> n \<and> n \<le> hi)
       \<and> (a = None \<longrightarrow> 2 \<le> n \<and> n \<le> 4)"
  using assms getRandomInt_inclusive[OF assms(1), of lo hi g n g1]
    getRandomInt_inclusive[OF assms(1), of 2 4 g n g1]
  by (auto simp: getListLength_def split: option.splits)

lemma getListLength_returns:
  "getDirectiveArgs (getDirective s ''listLength'' listLength) fd = Inr a \<Longrightarrow>
   \<exists>n g1. getListLength fk s fd g = Inr (n, g1)"
  by (cases a) (auto simp: getListLength_def intro: prod.exhaust)

lemma list_value:
  assumes "fakeValueOfType fk s fd (ListOf t) g = Inr (v, g')"
  shows "\<exists>n g1 vs. getListLength fk s fd g = Inr (n, g1) \<and> 0 \<le> n \<and> v = JArr vs \<and> int (length vs) = n"
proof -
  obtain n g1 where l: "getListLength fk s fd g = Inr (n, g1)"
    using assms by (auto split: sum.splits)
  have r: "0 \<le> n \<and> n \<le> 4294967295"
    using assms l by (auto simp: newArray_def split: sum.splits if_splits)
  then have na: "newArray n = Inr (nat n)" by (simp add: newArray_def)
  obtain vs g2 where i: "fakeItems (fakeValueOfType fk s fd t) (nat n) g1 = Inr (vs, g2)"
    using assms l na by (auto split: sum.splits)
  have "v = JArr vs" using assms l na i by simp
  moreover have "length vs = nat n" using fakeItems_length[OF i] .
  ultimately show ?thesis using l r by auto
qed

lemma list_returns:
  assumes "getListLength fk s fd g = Inr (n, g1)" and "0 \<le> n" and "n \<le> 4294967295"
      and "\<And>g. \<exists>r. fakeValueOfType fk s fd t g = Inr r"
  shows "\<exists>r. fakeValueOfType fk s fd (ListOf t) g = Inr r"
proof -
  obtain vs g2 where "fakeItems (fakeValueOfType fk s fd t) (nat n) g1 = Inr (vs, g2)"
    using fakeItems_returns[of "fakeValueOfType fk s fd t" "nat n" g1] assms(4) by auto
  then show ?thesis using assms(1-3) by (simp add: newArray_def)
qed

subsection \<open>The mutation echo\<close>

lemma single_input_iff:
  "(length args = 1 \<and> isPlainObject (getProp args ''input'')) =
   (\<exists>input. args = [(''input'', input)] \<and> isPlainObject input)"
proof
  assume a: "length args = 1 \<and> isPlainObject (getProp args ''input'')"
  then obtain k v where kv: "args = [(k, v)]" by (cases args) auto
  have "k = ''input''" using a kv by (cases "k = ''input''") (auto simp: isPlainObject_def)
  then show "\<exists>input. args = [(''input'', input)] \<and> isPlainObject input" using a kv by auto
next
  assume "\<exists>input. args = [(''input'', input)] \<and> isPlainObject input"
  then show "length args = 1 \<and> isPlainObject (getProp args ''input'')" by auto
qed

lemma mutation_result:
  assumes "mutationType (schema info) = Some (name (parentType info))"
      and "map_of (getFields (parentType info)) (fieldName info) = Some fd"
      and "isCompositeType (getNullableType (fieldType fd))"
      and "\<not> instanceofError v"
      and "(if v = JUndefined then fakeValueOfType fk (schema info) fd (fieldType fd) g
            else Inr (v, g)) = Inr (resolved, g')"
      and "isPlainObject resolved"
  shows "fakeFieldResolver fk args info v g =
           Inr (JObj (spread (spread [] resolved)
                  (if \<exists>input. args = [(''input'', input)] \<and> isPlainObject input
                   then getProp args ''input'' else JObj args)), g')"
  using assms unfolding fakeFieldResolver_def single_input_iff[symmetric]
  by (simp add: Let_def)

section \<open>Properties of the resolvers\<close>

subsection \<open>C1: precedence of the annotation-driven callbacks\<close>



subsection \<open>C2: an annotation carried by an extension fragment\<close>

text \<open>
  C2. The extractor is meant to inspect the base declaration and then every extension
  fragment of the element, and to return the last argument value found. It looks for the
  fragments under \<open>extensionNodes\<close>, a property the schema's objects do not have: a
  scalar declared without \<open>fake\<close> and extended by a fragment that carries \<open>fake\<close>
  reads as carrying none.
\<close>

theorem extension_fragment_is_not_read:
  "getDirectiveArgs (Some (Directive ''fake'' fake))
     (schemaObject (Some noDirectives)
        (Some [noDirectives\<lparr> fake := Some (FakeArgs ''date_past'' JUndefined JUndefined) \<rparr>]))
   = Inr None"
  by (simp add: getDirectiveArgs_def getDirectiveValues_def schemaObject_def noDirectives_def)

subsection \<open>C3: mutation echo\<close>

text \<open>
  C3. For a field of the mutation root whose type is composite and whose resolved value
  (the real value, or the synthesized one when there is none) is a plain object, the result
  is that object with the arguments spread over it: the properties of the single argument
  \<open>input\<close> when it is a plain object, all the arguments otherwise. A key of the spread
  source takes the source's value, any other key keeps the resolved object's. With the
  arguments \<open>{input: {name: "x"}}\<close> the result has \<open>name: "x"\<close>.
\<close>

theorem mutation_echo:
  assumes "mutationType (schema info) = Some (name (parentType info))"
      and "map_of (getFields (parentType info)) (fieldName info) = Some fd"
      and "isCompositeType (getNullableType (fieldType fd))"
      and "\<not> instanceofError v"
      and "(if v = JUndefined then fakeValueOfType fk (schema info) fd (fieldType fd) g
            else Inr (v, g)) = Inr (resolved, g')"
      and "isPlainObject resolved"
  shows "(\<forall>input. args = [(''input'', input)] \<and> isPlainObject input \<longrightarrow>
            fakeFieldResolver fk args info v g = Inr (JObj (spread (spread [] resolved) input), g'))
       \<and> (\<not> (\<exists>input. args = [(''input'', input)] \<and> isPlainObject input) \<longrightarrow>
            fakeFieldResolver fk args info v g = Inr (JObj (spread (spread [] resolved) (JObj args)), g'))
       \<and> (\<forall>r ps. resolved = JObj r \<and> distinct (map fst r) \<and> args = [(''input'', JObj ps)] \<and> distinct (map fst ps) \<longrightarrow>
            (\<exists>res. fakeFieldResolver fk args info v g = Inr (JObj res, g') \<and>
                   (\<forall>k. getProp res k = (if k \<in> set (map fst ps) then getProp ps k else getProp r k))))
       \<and> (args = [(''input'', JObj [(''name'', JStr ''x'')])] \<longrightarrow>
            (\<exists>res. fakeFieldResolver fk args info v g = Inr (JObj res, g') \<and> getProp res ''name'' = JStr ''x''))"
proof (intro conjI allI impI)
  note m = mutation_result[OF assms, of args]
  {
    fix input assume "args = [(''input'', input)] \<and> isPlainObject input"
    then show "fakeFieldResolver fk args info v g = Inr (JObj (spread (spread [] resolved) input), g')"
      using m by auto
  next
    assume "\<not> (\<exists>input. args = [(''input'', input)] \<and> isPlainObject input)"
    then have "(\<exists>input. args = [(''input'', input)] \<and> isPlainObject input) = False" by blast
    then show "fakeFieldResolver fk args info v g = Inr (JObj (spread (spread [] resolved) (JObj args)), g')"
      using m by (simp only: if_False)
  next
    fix r ps
    assume a: "resolved = JObj r \<and> distinct (map fst r) \<and> args = [(''input'', JObj ps)] \<and> distinct (map fst ps)"
    then have "fakeFieldResolver fk args info v g = Inr (JObj (spread (spread [] (JObj r)) (JObj ps)), g')"
      using m by (simp add: isPlainObject_def)
    moreover have "getProp (spread (spread [] (JObj r)) (JObj ps)) k
                     = (if k \<in> set (map fst ps) then getProp ps k else getProp r k)" for k
      using a by (simp add: spread_def getProp_assignProps getProp_rev getProp_missing)
    ultimately show "\<exists>res. fakeFieldResolver fk args info v g = Inr (JObj res, g') \<and>
                   (\<forall>k. getProp res k = (if k \<in> set (map fst ps) then getProp ps k else getProp r k))"
      by blast
  next
    assume a: "args = [(''input'', JObj [(''name'', JStr ''x'')])]"
    then have "fakeFieldResolver fk args info v g
                 = Inr (JObj (spread (spread [] resolved) (JObj [(''name'', JStr ''x'')])), g')"
      using m by (simp add: isPlainObject_def)
    moreover have "getProp (spread (spread [] resolved) (JObj [(''name'', JStr ''x'')])) ''name'' = JStr ''x''"
      by (simp add: spread_def getProp_setProp)
    ultimately show "\<exists>res. fakeFieldResolver fk args info v g = Inr (JObj res, g') \<and> getProp res ''name'' = JStr ''x''"
      by blast
  }
qed

text \<open>
  \<open>createUser(input: {name: "x"})\<close> with no real value, and
  \<open>createUser(id: 1, name: "x")\<close> over the real value \<open>{id: 7, age: 3}\<close>.
\<close>

theorem mutation_echo_witness:
  "fakeFieldResolver sampleFaker [(''input'', JObj [(''name'', JStr ''x'')])]
      (sampleInfo ''Mutation'' ''createUser'' (field noDirectives (Named (objectType ''User''))))
      JUndefined 0 = Inr (JObj [(''__typename'', JStr ''User''), (''name'', JStr ''x'')], 0)
   \<and> fakeFieldResolver sampleFaker [(''id'', JNum 1), (''name'', JStr ''x'')]
      (sampleInfo ''Mutation'' ''createUser'' (field noDirectives (Named (objectType ''User''))))
      (JObj [(''id'', JNum 7), (''age'', JNum 3)]) 0
      = Inr (JObj [(''id'', JNum 1), (''age'', JNum 3), (''name'', JStr ''x'')], 0)"
proof -
  let ?fd = "field noDirectives (Named (objectType ''User''))"
  let ?info = "sampleInfo ''Mutation'' ''createUser'' ?fd"
  have m: "mutationType (schema ?info) = Some (name (parentType ?info))"
    by (simp add: sample_defs)
  have f: "map_of (getFields (parentType ?info)) (fieldName ?info) = Some ?fd"
    by (simp add: sample_defs)
  have c: "isCompositeType (getNullableType (fieldType ?fd))"
    by (simp add: sample_defs)
  have r1: "(if JUndefined = JUndefined
             then fakeValueOfType sampleFaker (schema ?info) ?fd (fieldType ?fd) 0
             else Inr (JUndefined, 0))
      = Inr (JObj [(''__typename'', JStr ''User'')], 0)"
    by (simp add: sample_defs resolver_defs)
  have r2: "(if JObj [(''id'', JNum 7), (''age'', JNum 3)] = JUndefined
             then fakeValueOfType sampleFaker (schema ?info) ?fd (fieldType ?fd) 0
             else Inr (JObj [(''id'', JNum 7), (''age'', JNum 3)], 0))
      = Inr (JObj [(''id'', JNum 7), (''age'', JNum 3)], 0)"
    by simp
  have p1: "isPlainObject (JObj [(''__typename'', JStr ''User'')])" by (simp add: isPlainObject_def)
  have p2: "isPlainObject (JObj [(''id'', JNum 7), (''age'', JNum 3)])" by (simp add: isPlainObject_def)
  have e1: "\<not> instanceofError JUndefined" by simp
  have e2: "\<not> instanceofError (JObj [(''id'', JNum 7), (''age'', JNum 3)])" by simp
  show ?thesis
    using mutation_echo[OF m f c e1 r1 p1, of "[(''input'', JObj [(''name'', JStr ''x'')])]"]
          mutation_echo[OF m f c e2 r2 p2, of "[(''id'', JNum 1), (''name'', JStr ''x'')]"]
    by (simp add: isPlainObject_def spread_def)
qed

subsection \<open>C4: length of a synthesized list\<close>

text \<open>
  C4, with the range a random source can honour. For a list-typed field with no real
  value and a random source that draws within every non-empty inclusive range: when the
  field's \<open>listLength\<close> annotation is \<open>{min, max}\<close> with \<open>min \<le> max\<close>, a
  result is an array of a length between \<open>min\<close> and \<open>max\<close>; without the
  annotation it is an array of a length between 2 and 4. A result is produced when
  moreover \<open>0 \<le> min\<close>, \<open>max < 2^32\<close> and the items can be synthesized.
\<close>

theorem list_length_in_range:
  assumes "inclusive fk"
      and "map_of (getFields (parentType info)) (fieldName info) = Some fd"
      and "fieldType fd = ListOf t \<or> fieldType fd = NonNull (ListOf t)"
      and "getDirectiveArgs (getDirective (schema info) ''listLength'' listLength) fd = Inr a"
  shows "(\<forall>lo hi. a = Some (ListLengthArgs lo hi) \<and> lo \<le> hi \<longrightarrow>
            (\<forall>v g'. fakeFieldResolver fk args info JUndefined g = Inr (v, g') \<longrightarrow> arrayOfLength lo hi v))
       \<and> (a = None \<longrightarrow>
            (\<forall>v g'. fakeFieldResolver fk args info JUndefined g = Inr (v, g') \<longrightarrow> arrayOfLength 2 4 v))
       \<and> ((a = None \<or> (\<exists>lo hi. a = Some (ListLengthArgs lo hi) \<and> 0 \<le> lo \<and> lo \<le> hi \<and> hi \<le> 4294967295))
            \<and> (\<forall>g. \<exists>r. fakeValueOfType fk (schema info) fd t g = Inr r) \<longrightarrow>
            (\<exists>r. fakeFieldResolver fk args info JUndefined g = Inr r))"
proof -
  note lf = list_field[OF assms(2,3)]
  have bounds: "arrayOfLength lo hi v"
    if "fakeFieldResolver fk args info JUndefined g = Inr (v, g')"
      and "(a = Some (ListLengthArgs lo hi) \<and> lo \<le> hi) \<or> (a = None \<and> lo = 2 \<and> hi = 4)"
    for lo hi v g'
  proof -
    have fv: "fakeValueOfType fk (schema info) fd (ListOf t) g = Inr (v, g')"
      using that(1) by (simp only: lf)
    obtain n g1 vs where l: "getListLength fk (schema info) fd g = Inr (n, g1)"
        "v = JArr vs" "int (length vs) = n"
      using list_value[OF fv] by blast
    have "lo \<le> n \<and> n \<le> hi"
      using getListLength_range[OF assms(1,4) l(1), of lo hi] that(2) by auto
    then show ?thesis using l by (simp add: arrayOfLength_def)
  qed
  have returns: "\<exists>r. fakeFieldResolver fk args info JUndefined g = Inr r"
    if range: "a = None \<or> (\<exists>lo hi. a = Some (ListLengthArgs lo hi) \<and> 0 \<le> lo \<and> lo \<le> hi \<and> hi \<le> 4294967295)"
      and items: "\<forall>g. \<exists>r. fakeValueOfType fk (schema info) fd t g = Inr r"
  proof -
    obtain n g1 where l: "getListLength fk (schema info) fd g = Inr (n, g1)"
      using getListLength_returns[OF assms(4), of fk g] by blast
    have "0 \<le> n \<and> n \<le> 4294967295"
    proof (cases a)
      case None
      then show ?thesis using getListLength_range[OF assms(1,4) l, of 0 0] by auto
    next
      case (Some x)
      then obtain lo hi where "a = Some (ListLengthArgs lo hi)" "0 \<le> lo" "lo \<le> hi" "hi \<le> 4294967295"
        using range by auto
      then show ?thesis using getListLength_range[OF assms(1,4) l, of lo hi] by auto
    qed
    then have "\<exists>r. fakeValueOfType fk (schema info) fd (ListOf t) g = Inr r"
      using list_returns[OF l, of t] items by blast
    then show ?thesis by (simp only: lf)
  qed
  show ?thesis using bounds returns by blast
qed

text \<open>\<open>items: [Int] @listLength(min: 1, max: 3)\<close> resolves to two items here.\<close>

theorem list_length_in_range_witness:
  "fakeFieldResolver sampleFaker []
      (sampleInfo ''Query'' ''items''
         (field (noDirectives\<lparr> listLength := Some (ListLengthArgs 1 3) \<rparr>) (ListOf (Named (scalarType ''Int'')))))
      JUndefined 1 = Inr (JArr [JNum 2, JNum 3], 4)
   \<and> arrayOfLength 1 3 (JArr [JNum 2, JNum 3])"
proof -
  let ?fd = "field (noDirectives\<lparr> listLength := Some (ListLengthArgs 1 3) \<rparr>) (ListOf (Named (scalarType ''Int'')))"
  let ?info = "sampleInfo ''Query'' ''items'' ?fd"
  have f: "map_of (getFields (parentType ?info)) (fieldName ?info) = Some ?fd"
    by (simp add: sample_defs)
  have t: "fieldType ?fd = ListOf (Named (scalarType ''Int''))
           \<or> fieldType ?fd = NonNull (ListOf (Named (scalarType ''Int'')))"
    by (simp add: sample_defs)
  have a: "getDirectiveArgs (getDirective (schema ?info) ''listLength'' listLength) ?fd
             = Inr (Some (ListLengthArgs 1 3))"
    by (simp add: sample_defs resolver_defs)
  have e: "fakeFieldResolver sampleFaker [] ?info JUndefined 1 = Inr (JArr [JNum 2, JNum 3], 4)"
    by (simp add: sample_defs resolver_defs numeral_2_eq_2)
  show ?thesis
    using list_length_in_range[OF inclusive_sampleFaker f t a, of "[]" 1] e by simp
qed

text \<open>
  C4 as stated, for every annotation, fails where the range is empty or negative. No
  length lies in an empty range, whatever the random source draws:
  \<open>@listLength(min: 3, max: 1)\<close> yields three items here, more than \<open>max\<close>. And
  \<open>@listLength(min: -2, max: -1)\<close> yields no array but a RangeError.
\<close>

theorem list_length_counterexample:
  "fakeFieldResolver sampleFaker []
      (sampleInfo ''Query'' ''items''
         (field (noDirectives\<lparr> listLength := Some (ListLengthArgs 3 1) \<rparr>) (ListOf (Named (scalarType ''Int'')))))
      JUndefined 0 = Inr (JArr [JNum 1, JNum 2, JNum 3], 4)
   \<and> \<not> arrayOfLength 3 1 (JArr [JNum 1, JNum 2, JNum 3])
   \<and> fakeFieldResolver sampleFaker []
      (sampleInfo ''Query'' ''items''
         (field (noDirectives\<lparr> listLength := Some (ListLengthArgs (- 2) (- 1)) \<rparr>) (ListOf (Named (scalarType ''Int'')))))
      JUndefined 0 = Inl RangeError"
  by (simp add: sample_defs resolver_defs arrayOfLength_def numeral_3_eq_3)

subsection \<open>C5: an upstream error passes through\<close>

text \<open>
  C5. A real value that is an error is returned as it is, with the generator state
  untouched: whatever the schema, the parent type, the field and the arguments are, so
  without any synthesis, annotation lookup or merge.
\<close>

theorem error_passes_through:
  "fakeFieldResolver fk args info (JError m) g = Inr (JError m, g)"
  by (simp add: fakeFieldResolver_def)

theorem error_passes_through_witness:
  "fakeFieldResolver sampleFaker [(''input'', JObj [(''name'', JStr ''x'')])]
     (sampleInfo ''Mutation'' ''createUser'' (field noDirectives (Named (objectType ''User''))))
     (JError ''upstream failed'') 0 = Inr (JError ''upstream failed'', 0)"
  by (rule error_passes_through)

subsection \<open>C6: resolution of an abstract type\<close>

text \<open>
  C6, for an abstract type with at least one possible type and a random source that draws
  within every non-empty inclusive range. When no type is resolved by default, the index
  drawn from \<open>[0, n - 1]\<close> is a position of the list of possible types and the type
  resolver returns the type at that position, hence a member of the list; type names being
  distinct, a possible type is returned exactly when its position is drawn, so that the
  choice among the possible types is as uniform as the draw. A type resolved by default
  is returned as it is. The type tag of a synthesized value of the abstract type is the
  name of the possible type at the drawn position as well.
\<close>

theorem abstract_type_is_possible:
  fixes fk :: "'g faker" and g :: 'g
  defines "drawn s t \<equiv> getRandomInt fk 0 (int (length (getPossibleTypes s t)) - 1) g"
  assumes "inclusive fk" and "getPossibleTypes s t \<noteq> []"
  shows "0 \<le> fst (drawn s t) \<and> nat (fst (drawn s t)) < length (getPossibleTypes s t)
       \<and> fakeTypeResolver fk s None t g
           = (Some (name (getPossibleTypes s t ! nat (fst (drawn s t)))), snd (drawn s t))
       \<and> (\<exists>i < length (getPossibleTypes s t).
            fst (fakeTypeResolver fk s None t g) = Some (name (getPossibleTypes s t ! i)))
       \<and> fst (fakeTypeResolver fk s None t g) \<in> Some ` name ` set (getPossibleTypes s t)
       \<and> (distinct (map name (getPossibleTypes s t)) \<longrightarrow>
            (\<forall>i < length (getPossibleTypes s t).
               (fst (fakeTypeResolver fk s None t g) = Some (name (getPossibleTypes s t ! i)))
               = (fst (drawn s t) = int i)))
       \<and> fakeTypeResolver fk s (Some n) t g = (Some n, g)
       \<and> (isAbstractType t \<longrightarrow>
            typename fk s t g = Inr (name (getPossibleTypes s t ! nat (fst (drawn s t))), snd (drawn s t)))
       \<and> (isAbstractType t \<longrightarrow>
            (\<exists>tn g'. typename fk s t g = Inr (tn, g') \<and> tn \<in> name ` set (getPossibleTypes s t)))"
proof -
  let ?pts = "getPossibleTypes s t"
  let ?d = "getRandomInt fk 0 (int (length ?pts) - 1) g"
  have dr: "drawn s t = ?d" by (simp add: drawn_def)
  have "0 \<le> int (length ?pts) - 1" using assms(3) by (cases ?pts) auto
  then have "0 \<le> fst ?d \<and> fst ?d \<le> int (length ?pts) - 1"
    using getRandomInt_inclusive[OF assms(2), of 0 "int (length ?pts) - 1" g "fst ?d" "snd ?d"] by simp
  then have r: "0 \<le> fst ?d" "fst ?d < int (length ?pts)" "nat (fst ?d) < length ?pts" by auto
  have item: "getRandomItem fk ?pts g = (Some (?pts ! nat (fst ?d)), snd ?d)"
    using r by (cases ?d) (simp add: getRandomItem_def)
  have a: "fakeTypeResolver fk s None t g = (Some (name (?pts ! nat (fst ?d))), snd ?d)"
    using item by (simp add: fakeTypeResolver_def)
  have m: "?pts ! nat (fst ?d) \<in> set ?pts" using r(3) by simp
  have e: "\<exists>i < length ?pts. fst (fakeTypeResolver fk s None t g) = Some (name (?pts ! i))"
    using a r(3) by auto
  have b: "fst (fakeTypeResolver fk s None t g) \<in> Some ` name ` set ?pts"
    using a m by auto
  have u: "(fst (fakeTypeResolver fk s None t g) = Some (name (?pts ! i))) = (fst ?d = int i)"
    if "distinct (map name ?pts)" and "i < length ?pts" for i
  proof -
    have "(name (?pts ! nat (fst ?d)) = name (?pts ! i)) = (nat (fst ?d) = i)"
      using nth_eq_iff_index_eq[OF that(1), of "nat (fst ?d)" i] that(2) r(3) by simp
    moreover have "(nat (fst ?d) = i) = (fst ?d = int i)" using r(1) by auto
    ultimately show ?thesis using a by simp
  qed
  have c: "fakeTypeResolver fk s (Some n) t g = (Some n, g)" by (simp add: fakeTypeResolver_def)
  have ty: "isAbstractType t \<longrightarrow> typename fk s t g = Inr (name (?pts ! nat (fst ?d)), snd ?d)"
    using item by (simp add: typename_def)
  have tm: "isAbstractType t \<longrightarrow> (\<exists>tn g'. typename fk s t g = Inr (tn, g') \<and> tn \<in> name ` set ?pts)"
    using ty m by auto
  show ?thesis
    unfolding dr using r(1,3) a e b u c ty tm by blast
qed

text \<open>
  The interface \<open>Node\<close> has the possible types \<open>User\<close> and \<open>Post\<close>; at the
  state 1 the index drawn from \<open>[0, 1]\<close> is 1 and the resolver returns \<open>Post\<close>.
\<close>

theorem abstract_type_is_possible_witness:
  "getPossibleTypes sampleSchema (interfaceType ''Node'') = [objectType ''User'', objectType ''Post'']
   \<and> getRandomInt sampleFaker 0 1 1 = (1, 2)
   \<and> fakeTypeResolver sampleFaker sampleSchema None (interfaceType ''Node'') 1 = (Some ''Post'', 2)
   \<and> fst (fakeTypeResolver sampleFaker sampleSchema None (interfaceType ''Node'') 1)
       \<in> Some ` name ` set (getPossibleTypes sampleSchema (interfaceType ''Node''))"
proof -
  have h: "getPossibleTypes sampleSchema (interfaceType ''Node'') \<noteq> []"
    by (simp add: sample_defs resolver_defs interfaceType_def)
  show ?thesis
    using abstract_type_is_possible[OF inclusive_sampleFaker h, of 1]
    by (simp add: sample_defs resolver_defs interfaceType_def fakeTypeResolver_def)
qed

text \<open>
  C6 as stated, for every abstract type and every value, fails in two ways. For an
  interface no type implements, the type resolver returns \<open>undefined\<close> and
  synthesizing a value of the interface throws. And a type resolved by default is not
  checked against the list: a field of type \<open>Node\<close> with the examples
  \<open>[{__typename: "Bogus"}]\<close> is synthesized with that tag, the default type resolver
  reads the tag, and the type resolver returns \<open>Bogus\<close>, which is no possible type of
  \<open>Node\<close>.
\<close>

theorem abstract_type_counterexample:
  "getPossibleTypes sampleSchema (interfaceType ''Orphan'') = []
   \<and> fakeTypeResolver sampleFaker sampleSchema None (interfaceType ''Orphan'') 0 = (None, 1)
   \<and> fakeFieldResolver sampleFaker []
        (sampleInfo ''Query'' ''node'' (field noDirectives (Named (interfaceType ''Orphan''))))
        JUndefined 0 = Inl TypeError
   \<and> fakeFieldResolver sampleFaker []
        (sampleInfo ''Query'' ''node''
           (field (noDirectives\<lparr> examples := Some (ExamplesArgs [JObj [(''__typename'', JStr ''Bogus'')]]) \<rparr>)
              (Named (interfaceType ''Node''))))
        JUndefined 0 = Inr (JObj [(''__typename'', JStr ''Bogus'')], 2)
   \<and> fakeTypeResolver sampleFaker sampleSchema (Some ''Bogus'') (interfaceType ''Node'') 0 = (Some ''Bogus'', 0)
   \<and> ''Bogus'' \<notin> name ` set (getPossibleTypes sampleSchema (interfaceType ''Node''))"
  by (simp add: sample_defs resolver_defs interfaceType_def fakeTypeResolver_def)

subsection \<open>C7: placeholder for an unknown scalar\<close>

text \<open>
  C7. A scalar with no registered generator and no annotation-driven callback is meant to
  get the type name in angle brackets, and never to make synthesis throw. The lookup of
  the generator is a property lookup in an object, so a scalar named after a member every
  object inherits finds that member and calls it: the scalar \<open>valueOf\<close> makes the
  leaf default, and with it the field resolver, throw a TypeError, and the scalar
  \<open>toString\<close> gets \<open>[object Undefined]\<close>. Neither name is registered in the
  table.
\<close>

theorem inherited_member_is_no_placeholder:
  "stdScalarFakers sampleFaker ''valueOf'' = None
   \<and> fakeLeafValueCB sampleFaker (scalarType ''valueOf'') 0 = Inl TypeError
   \<and> fakeFieldResolver sampleFaker []
        (sampleInfo ''Query'' ''size'' (field noDirectives (Named (scalarType ''valueOf''))))
        JUndefined 0 = Inl TypeError
   \<and> stdScalarFakers sampleFaker ''toString'' = None
   \<and> fakeLeafValueCB sampleFaker (scalarType ''toString'') 0 = Inr (JStr ''[object Undefined]'', 0)"
  by (simp add: sample_defs resolver_defs)

subsection \<open>C8: failure of the annotation extractor\<close>

text \<open>
  C8, with the failure of the library's reader set apart. The extractor fails with the
  assertion's error exactly when the schema has no definition of the named annotation.
  With the definition, it fails only with the library's GraphQLError, and only when a
  declaration site it reads carries the annotation with arguments that do not coerce; an
  element none of whose sites carries the annotation reads as \<open>undefined\<close>. The
  extractor is a function of the definition and the element alone: it has no effect.
\<close>

theorem getDirectiveArgs_asserts_iff_undeclared:
  "((getDirectiveArgs (getDirective s n reader) obj = Inl AssertionError) = (n \<notin> set (directives s)))
   \<and> (n \<notin> set (directives s) \<longrightarrow> getDirectiveArgs (getDirective s n reader) obj = Inl AssertionError)
   \<and> (n \<in> set (directives s) \<longrightarrow>
        (\<forall>e. getDirectiveArgs (getDirective s n reader) obj = Inl e \<longrightarrow>
           e = GraphQLError
           \<and> ((\<exists>node. astNode obj = Some node \<and> n \<in> set (invalid node))
              \<or> (\<exists>nodes. extensionNodes obj = Some nodes \<and> (\<exists>node \<in> set nodes. n \<in> set (invalid node))))))
   \<and> (n \<in> set (directives s) \<longrightarrow>
        (\<forall>node. astNode obj = Some node \<longrightarrow> reader node = None \<and> n \<notin> set (invalid node)) \<longrightarrow>
        (\<forall>nodes. extensionNodes obj = Some nodes \<longrightarrow>
           (\<forall>node \<in> set nodes. reader node = None \<and> n \<notin> set (invalid node))) \<longrightarrow>
        getDirectiveArgs (getDirective s n reader) obj = Inr None)"
proof (intro conjI impI allI)
  show i: "(getDirectiveArgs (getDirective s n reader) obj = Inl AssertionError) = (n \<notin> set (directives s))"
    by (simp add: getDirectiveArgs_assertion_iff getDirective_None_iff)
  {
    assume "n \<notin> set (directives s)"
    then show "getDirectiveArgs (getDirective s n reader) obj = Inl AssertionError"
      using i by simp
  next
    fix e
    assume d: "n \<in> set (directives s)"
      and f: "getDirectiveArgs (getDirective s n reader) obj = Inl e"
    have "getDirectiveArgs (Some (Directive n reader)) obj = Inl e"
      using d f by (simp add: getDirective_def)
    from getDirectiveArgs_fails[OF this]
    show "e = GraphQLError"
      and "(\<exists>node. astNode obj = Some node \<and> n \<in> set (invalid node))
           \<or> (\<exists>nodes. extensionNodes obj = Some nodes \<and> (\<exists>node \<in> set nodes. n \<in> set (invalid node)))"
      by simp_all
  next
    assume d: "n \<in> set (directives s)"
      and b: "\<forall>node. astNode obj = Some node \<longrightarrow> reader node = None \<and> n \<notin> set (invalid node)"
      and x: "\<forall>nodes. extensionNodes obj = Some nodes \<longrightarrow>
                (\<forall>node \<in> set nodes. reader node = None \<and> n \<notin> set (invalid node))"
    have "getDirectiveArgs_loop (Directive n reader) None nodes = Inr None"
      if "extensionNodes obj = Some nodes" for nodes
      using x that by (intro getDirectiveArgs_loop_none) (simp add: getDirectiveValues_def)
    then show "getDirectiveArgs (getDirective s n reader) obj = Inr None"
      using d b
      by (simp add: getDirectiveArgs_def getDirective_def getDirectiveValues_def split: option.splits)
  }
qed

text \<open>
  The sample schema declares no annotation \<open>upper\<close>; it declares \<open>fake\<close>, which the
  scalar \<open>Date\<close> does not carry.
\<close>

theorem getDirectiveArgs_asserts_iff_undeclared_witness:
  "getDirectiveArgs (getDirective sampleSchema ''upper'' fake) (scalarType ''Date'') = Inl AssertionError
   \<and> getDirectiveArgs (getDirective sampleSchema ''fake'' fake) (scalarType ''Date'') = Inr None"
  using getDirectiveArgs_asserts_iff_undeclared[of sampleSchema "''upper''" fake "scalarType ''Date''"]
        getDirectiveArgs_asserts_iff_undeclared[of sampleSchema "''fake''" fake "scalarType ''Date''"]
  by (auto simp: sample_defs)

text \<open>
  C8 as stated, with no failure but the assertion's, fails for a field that carries
  \<open>@listLength(min: "a", max: 2)\<close>: the schema defines \<open>listLength\<close>, and the
  extractor fails with the library's GraphQLError.
\<close>

theorem getDirectiveArgs_counterexample:
  "''listLength'' \<in> set (directives sampleSchema)
   \<and> getDirectiveArgs (getDirective sampleSchema ''listLength'' listLength)
        (field (noDirectives\<lparr> invalid := [''listLength''] \<rparr>) (ListOf (Named (scalarType ''Int''))))
      = Inl GraphQLError"
  by (simp add: sample_defs resolver_defs)

subsection \<open>C9: the root type placeholder\<close>

text \<open>
  C9. Every placeholder \<open><RootTypeName>\<close> of the extension text is meant to become the
  name of the base schema's query type. The substitution replaces the first one only: an
  extension text with two placeholders keeps the second.
\<close>

theorem second_placeholder_is_kept:
  "runServer_extensionBody ''Query''
     ''extend type <RootTypeName> { a: Int } extend type <RootTypeName> { b: Int }''
   = ''extend type Query { a: Int } extend type <RootTypeName> { b: Int }''
   \<and> occurs ''<RootTypeName>'' ''extend type Query { a: Int } extend type <RootTypeName> { b: Int }''"
  by (simp add: runServer_extensionBody_def)

subsection \<open>C10: a real value is returned as it is\<close>

text \<open>
  C10. For a field of a parent type that is not the mutation root, every real value other
  than \<open>undefined\<close> (\<open>null\<close>, an empty array, an empty string, ...) is returned as
  it is, with the generator state untouched; \<open>undefined\<close> alone is replaced by the
  synthesized value of the field's type.
\<close>

theorem real_value_is_returned:
  assumes "mutationType (schema info) \<noteq> Some (name (parentType info))"
    and "map_of (getFields (parentType info)) (fieldName info) = Some fd"
  shows "(v \<noteq> JUndefined \<longrightarrow> fakeFieldResolver fk args info v g = Inr (v, g))
       \<and> fakeFieldResolver fk args info JUndefined g = fakeValueOfType fk (schema info) fd (fieldType fd) g"
  using assms by (auto simp: fakeFieldResolver_def split: sum.splits)

theorem real_value_is_returned_witness:
  "fakeFieldResolver sampleFaker [] (sampleInfo ''Query'' ''age'' (field noDirectives (Named (scalarType ''Int'')))) JNull 0
     = Inr (JNull, 0)
   \<and> fakeFieldResolver sampleFaker [] (sampleInfo ''Query'' ''age'' (field noDirectives (Named (scalarType ''Int'')))) (JArr []) 0
     = Inr (JArr [], 0)
   \<and> fakeFieldResolver sampleFaker [] (sampleInfo ''Query'' ''age'' (field noDirectives (Named (scalarType ''Int'')))) (JStr []) 0
     = Inr (JStr [], 0)
   \<and> fakeFieldResolver sampleFaker [] (sampleInfo ''Query'' ''age'' (field noDirectives (Named (scalarType ''Int'')))) JUndefined 0
     = Inr (JNum 0, 1)"
  using real_value_is_returned[where info = "sampleInfo ''Query'' ''age'' (field noDirectives (Named (scalarType ''Int'')))"
      and fd = "field noDirectives (Named (scalarType ''Int''))" and fk = sampleFaker and args = "[]" and g = 0 and v = JNull]
    real_value_is_returned[where info = "sampleInfo ''Query'' ''age'' (field noDirectives (Named (scalarType ''Int'')))"
      and fd = "field noDirectives (Named (scalarType ''Int''))" and fk = sampleFaker and args = "[]" and g = 0 and v = "JArr []"]
    real_value_is_returned[where info = "sampleInfo ''Query'' ''age'' (field noDirectives (Named (scalarType ''Int'')))"
      and fd = "field noDirectives (Named (scalarType ''Int''))" and fk = sampleFaker and args = "[]" and g = 0 and v = "JStr []"]
  by (simp add: sample_defs resolver_defs)

end
